theory Spec2Isabelle
  imports Main "HOL-Library.Multiset"
begin

section \<open>Python values, errors and external libraries\<close>

text \<open>
  An exception is a value of \<open>py_error\<close>. The built-in exceptions are the ones the
  methods of \<open>DimensionsQuery\<close> raise themselves or get from the interpreter and the table
  library on the paths modelled here; \<open>LibraryError\<close> is anything raised inside the service
  client (\<open>dimcli\<close>), passed on unchanged.
\<close>

datatype py_error =
    ValueError string
  | AttributeError string
  | KeyError string
  | TypeError string
  | LibraryError string

text \<open>
  An instance attribute exists only once it has been assigned: reading an attribute that
  was never assigned raises \<open>AttributeError\<close>. \<open>Unset\<close> is the attribute that does not
  exist, \<open>Attr v\<close> the attribute holding \<open>v\<close>; where the value may be Python's \<open>None\<close>,
  \<open>v\<close> is an option.
\<close>

datatype 'a attr = Unset | Attr 'a

subsection \<open>The result table\<close>

text \<open>
  An affiliation object with its \<open>country\<close> and \<open>name\<close> entries, an author object with its
  \<open>researcher_id\<close> and its list of affiliations. \<open>None\<close> is a missing value (null).
\<close>

record affiliation =
  country :: "string option"
  name :: "string option"

record author =
  researcher_id :: "string option"
  affiliations :: "affiliation list"

text \<open>
  The data frame holds the two columns the analysis reads. A column that was not
  returned by the query is \<open>None\<close> (indexing it raises \<open>KeyError\<close>). A cell of
  \<open>journal.title\<close> is a title or a missing value; a cell of \<open>authors\<close> is a list of
  author objects, or a missing value for a record without authors.
\<close>

record dataframe =
  journal_title :: "string option list option"
  authors :: "author list option list option"

text \<open>What \<open>run_query\<close> keeps and returns: the client's own dataset, or a data frame.\<close>

datatype 'resp response = Dataset 'resp | DataFrame dataframe

text \<open>
  The operations of the external libraries that the class calls. Their code is not part
  of this repository, so they are parameters of the model: \<open>login\<close> is \<open>dimcli.login\<close>,
  \<open>Dsl\<close> is \<open>dimcli.Dsl()\<close>, \<open>dsl_query\<close> is the \<open>query\<close> method of the client,
  \<open>total_count\<close> reads \<open>stats['total_count']\<close> of a response, \<open>as_dataframe\<close> and
  \<open>copy_dataset\<close> are the methods of the client's dataset, \<open>bar_chart\<close> draws and shows
  a bar chart of a frequency table under a title. Each of these may raise (\<open>Inl\<close>, with
  the description of the failure). \<open>argsort\<close> is the ascending sort by count that the
  table library applies inside \<open>value_counts\<close>; its default algorithm is not promised
  to be stable, so what a theorem needs of it is a hypothesis of that theorem.
\<close>

record ('dsl, 'resp) library =
  login :: "string \<Rightarrow> string \<Rightarrow> string + unit"
  Dsl :: "string + 'dsl"
  dsl_query :: "'dsl \<Rightarrow> string \<Rightarrow> string + 'resp"
  total_count :: "'resp \<Rightarrow> string + int"
  as_dataframe :: "'resp \<Rightarrow> string + dataframe"
  copy_dataset :: "'resp \<Rightarrow> string + 'resp"
  argsort :: "(string option \<times> nat) list \<Rightarrow> (string option \<times> nat) list"
  bar_chart :: "(string option \<times> nat) list \<Rightarrow> string \<Rightarrow> string + unit"

definition external :: "string + 'a \<Rightarrow> py_error + 'a" where
  "external r = (case r of Inl msg \<Rightarrow> Inl (LibraryError msg) | Inr v \<Rightarrow> Inr v)"

section \<open>The query builder\<close>

record ('dsl, 'resp) DimensionsQuery =
  endpoint :: string
  api_key :: "string option"
  dsl :: 'dsl
  topic :: string
  where_clause :: "string option"
  search :: string
  return_cols :: "string option"
  query :: "string option attr"
  results :: "'resp response option attr"

text \<open>Truth value of an optional string: \<open>None\<close> and the empty string are false.\<close>

fun truthy :: "string option \<Rightarrow> bool" where
  "truthy None = False"
| "truthy (Some s) = (s \<noteq> [])"

text \<open>The text an optional string contributes to an f-string.\<close>

fun fmt :: "string option \<Rightarrow> string" where
  "fmt None = ''None''"
| "fmt (Some s) = s"

definition validate_key ::
  "('dsl, 'resp) library \<Rightarrow> string option \<Rightarrow> string \<Rightarrow> py_error + 'dsl" where
  "validate_key lib key ep =
     (case key of
        None \<Rightarrow> Inl (ValueError
          ''API key not found. Make sure to set DIMENSIONS_API_KEY in your .env file.'')
      | Some k \<Rightarrow>
          (case external (login lib k ep) of
             Inl e \<Rightarrow> Inl e
           | Inr _ \<Rightarrow> external (Dsl lib)))"

definition update_query ::
  "('dsl, 'resp) DimensionsQuery \<Rightarrow> ('dsl, 'resp) DimensionsQuery" where
  "update_query self =
     (let return_seg =
            (if truthy (return_cols self)
             then ''return '' @ search self @ ''['' @ fmt (return_cols self) @ '']''
             else ''return '' @ search self)
      in if truthy (where_clause self)
         then self\<lparr>query := Attr (Some
                (''search '' @ search self @ '' for '' @ [CHR 0x22] @ topic self @ [CHR 0x22]
                  @ '' where '' @ fmt (where_clause self) @ '' '' @ return_seg))\<rparr>
         else self\<lparr>query := Attr (Some
                (''search '' @ search self @ '' for '' @ [CHR 0x22] @ topic self @ [CHR 0x22]
                  @ '' '' @ return_seg))\<rparr>)"

text \<open>
  The constructor. \<open>env\<close> is the process environment after the environment file has
  been loaded. The attributes are assigned in the order of the source; \<open>query\<close> is
  assigned by \<open>update_query\<close>, and \<open>results\<close> is not assigned at all.
\<close>

definition init ::
  "('dsl, 'resp) library \<Rightarrow> (string \<Rightarrow> string option) \<Rightarrow> string \<Rightarrow> string option \<Rightarrow>
     string \<Rightarrow> string option \<Rightarrow> string \<Rightarrow> py_error + ('dsl, 'resp) DimensionsQuery" where
  "init lib env topic0 where0 search0 return_cols0 endpoint0 =
     (let key = env ''DIMENSIONS_API_KEY''
      in case validate_key lib key endpoint0 of
           Inl e \<Rightarrow> Inl e
         | Inr d \<Rightarrow>
             Inr (update_query
               \<lparr>endpoint = endpoint0, api_key = key, dsl = d, topic = topic0,
                where_clause = where0, search = search0, return_cols = return_cols0,
                query = Unset, results = Unset\<rparr>))"

definition update_topic ::
  "('dsl, 'resp) DimensionsQuery \<Rightarrow> string \<Rightarrow> ('dsl, 'resp) DimensionsQuery" where
  "update_topic self t = update_query (self\<lparr>topic := t\<rparr>)"

definition update_where ::
  "('dsl, 'resp) DimensionsQuery \<Rightarrow> string option \<Rightarrow> ('dsl, 'resp) DimensionsQuery" where
  "update_where self w = update_query (self\<lparr>where_clause := w\<rparr>)"

definition update_search ::
  "('dsl, 'resp) DimensionsQuery \<Rightarrow> string \<Rightarrow> ('dsl, 'resp) DimensionsQuery" where
  "update_search self s = update_query (self\<lparr>search := s\<rparr>)"

text \<open>
  \<open>run_query\<close> returns the instance as the call leaves it, and what the call returns or
  raises. The two status lines it prints are not modelled, only the read of the total
  count they need. \<open>results\<close> is assigned before the copy is taken.
\<close>

definition run_query ::
  "('dsl, 'resp) library \<Rightarrow> ('dsl, 'resp) DimensionsQuery \<Rightarrow> bool \<Rightarrow>
     ('dsl, 'resp) DimensionsQuery \<times> (py_error + 'resp response)" where
  "run_query lib self df =
     (case query self of
        Unset \<Rightarrow> (self, Inl (AttributeError ''query''))
      | Attr None \<Rightarrow> (self, Inl (ValueError
          ''Query not specified. Use update_query method to set the query.''))
      | Attr (Some q) \<Rightarrow>
          (case external (dsl_query lib (dsl self) q) of
             Inl e \<Rightarrow> (self, Inl e)
           | Inr resp \<Rightarrow>
               (case external (total_count lib resp) of
                  Inl e \<Rightarrow> (self, Inl e)
                | Inr _ \<Rightarrow>
                    (case (if df
                           then (case external (as_dataframe lib resp) of
                                   Inl e \<Rightarrow> Inl e
                                 | Inr frame \<Rightarrow> Inr (DataFrame frame))
                           else Inr (Dataset resp)) of
                       Inl e \<Rightarrow> (self, Inl e)
                     | Inr response \<Rightarrow>
                         (self\<lparr>results := Attr (Some response)\<rparr>,
                          (case response of
                             DataFrame frame \<Rightarrow> Inr (DataFrame frame)
                           | Dataset d \<Rightarrow>
                               (case external (copy_dataset lib d) of
                                  Inl e \<Rightarrow> Inl e
                                | Inr d' \<Rightarrow> Inr (Dataset d'))))))))"

section \<open>The result analyzer\<close>

subsection \<open>Counting values\<close>

text \<open>
  \<open>value_counts\<close> of the table library, as the library documents and implements it: with
  \<open>dropna\<close> (the default, and what every call of the source uses) the missing values are
  left out; the distinct values are counted in the order in which they first occur;
  the counts are put in descending order by \<open>sort_values(ascending=False)\<close>, which
  reverses the table, sorts it ascending with the library's \<open>argsort\<close> and reverses the
  outcome. \<open>head n\<close> keeps the first \<open>n\<close> rows.
\<close>

primrec first_seen :: "'a list \<Rightarrow> 'a list" where
  "first_seen [] = []"
| "first_seen (x # xs) = x # filter (\<lambda>y. y \<noteq> x) (first_seen xs)"

definition counted :: "'a list \<Rightarrow> ('a \<times> nat) list" where
  "counted vals = map (\<lambda>v. (v, count_list vals v)) (first_seen vals)"

definition sort_values_desc ::
  "(('a \<times> nat) list \<Rightarrow> ('a \<times> nat) list) \<Rightarrow> ('a \<times> nat) list \<Rightarrow> ('a \<times> nat) list" where
  "sort_values_desc srt t = rev (srt (rev t))"

definition value_counts ::
  "(('a option \<times> nat) list \<Rightarrow> ('a option \<times> nat) list) \<Rightarrow> bool \<Rightarrow> 'a option list \<Rightarrow>
     ('a option \<times> nat) list" where
  "value_counts srt dropna col =
     sort_values_desc srt (counted (if dropna then filter (\<lambda>v. v \<noteq> None) col else col))"

definition head :: "nat \<Rightarrow> 'a list \<Rightarrow> 'a list" where
  "head n t = take n t"

subsection \<open>The exploded author table\<close>

text \<open>
  The list comprehension over the \<open>authors\<close> column: iterating a cell that is a missing
  value raises \<open>TypeError\<close>.
\<close>

fun flatten_authors :: "author list option list \<Rightarrow> py_error + author list" where
  "flatten_authors [] = Inr []"
| "flatten_authors (None # rest) = Inl (TypeError ''float object is not iterable'')"
| "flatten_authors (Some as # rest) =
     (case flatten_authors rest of Inl e \<Rightarrow> Inl e | Inr bs \<Rightarrow> Inr (as @ bs))"

definition authors_df :: "dataframe \<Rightarrow> py_error + author list" where
  "authors_df df =
     (case authors df of
        None \<Rightarrow> Inl (KeyError ''authors'')
      | Some col \<Rightarrow> flatten_authors col)"

text \<open>
  A column of the author table. A table built from no author object at all has no
  columns, and indexing it raises \<open>KeyError\<close>.
\<close>

definition author_column :: "string \<Rightarrow> (author \<Rightarrow> 'a) \<Rightarrow> author list \<Rightarrow> py_error + 'a list" where
  "author_column cname f rows =
     (if rows = [] then Inl (KeyError cname) else Inr (map f rows))"

text \<open>The two lambdas applied to an \<open>affiliations\<close> cell.\<close>

definition first_country :: "affiliation list \<Rightarrow> string option" where
  "first_country x = (case x of [] \<Rightarrow> None | a # _ \<Rightarrow> country a)"

definition first_name :: "affiliation list \<Rightarrow> string option" where
  "first_name x = (case x of [] \<Rightarrow> None | a # _ \<Rightarrow> name a)"

subsection \<open>The frequency counts of the four routines\<close>

definition journal_counts ::
  "('dsl, 'resp) library \<Rightarrow> dataframe \<Rightarrow> py_error + (string option \<times> nat) list" where
  "journal_counts lib df =
     (case journal_title df of
        None \<Rightarrow> Inl (KeyError ''journal.title'')
      | Some col \<Rightarrow> Inr (value_counts (argsort lib) True col))"

definition author_counts ::
  "('dsl, 'resp) library \<Rightarrow> dataframe \<Rightarrow> py_error + (string option \<times> nat) list" where
  "author_counts lib df =
     (case authors_df df of
        Inl e \<Rightarrow> Inl e
      | Inr rows \<Rightarrow>
          (case author_column ''researcher_id'' researcher_id rows of
             Inl e \<Rightarrow> Inl e
           | Inr col \<Rightarrow> Inr (value_counts (argsort lib) True col)))"

definition country_counts ::
  "('dsl, 'resp) library \<Rightarrow> dataframe \<Rightarrow> py_error + (string option \<times> nat) list" where
  "country_counts lib df =
     (case authors_df df of
        Inl e \<Rightarrow> Inl e
      | Inr rows \<Rightarrow>
          (case author_column ''affiliations'' affiliations rows of
             Inl e \<Rightarrow> Inl e
           | Inr col \<Rightarrow> Inr (value_counts (argsort lib) True (map first_country col))))"

definition institution_counts ::
  "('dsl, 'resp) library \<Rightarrow> dataframe \<Rightarrow> py_error + (string option \<times> nat) list" where
  "institution_counts lib df =
     (case authors_df df of
        Inl e \<Rightarrow> Inl e
      | Inr rows \<Rightarrow>
          (case author_column ''affiliations'' affiliations rows of
             Inl e \<Rightarrow> Inl e
           | Inr col \<Rightarrow> Inr (value_counts (argsort lib) True (map first_name col))))"

subsection \<open>The four routines\<close>

text \<open>
  Each routine takes the first ten rows of its counts, draws the chart under a title
  made from the current topic, and prints the frequency table, which is what the model
  returns. The banner line printed first is not modelled.
\<close>

definition plot_and_table ::
  "('dsl, 'resp) library \<Rightarrow> string \<Rightarrow> py_error + (string option \<times> nat) list \<Rightarrow>
     py_error + (string option \<times> nat) list" where
  "plot_and_table lib title counts =
     (case counts of
        Inl e \<Rightarrow> Inl e
      | Inr c \<Rightarrow>
          (let top = head 10 c
           in case external (bar_chart lib top title) of
                Inl e \<Rightarrow> Inl e
              | Inr _ \<Rightarrow> Inr top))"

definition plot_most_common_journal ::
  "('dsl, 'resp) library \<Rightarrow> ('dsl, 'resp) DimensionsQuery \<Rightarrow> dataframe \<Rightarrow>
     py_error + (string option \<times> nat) list" where
  "plot_most_common_journal lib self df =
     plot_and_table lib (''Top 10 Journals in '' @ topic self @ '' Publications'')
       (journal_counts lib df)"

definition plot_publications_per_author ::
  "('dsl, 'resp) library \<Rightarrow> ('dsl, 'resp) DimensionsQuery \<Rightarrow> dataframe \<Rightarrow>
     py_error + (string option \<times> nat) list" where
  "plot_publications_per_author lib self df =
     plot_and_table lib (''Top 10 Authors in '' @ topic self @ '' Publications'')
       (author_counts lib df)"

definition plot_most_common_country ::
  "('dsl, 'resp) library \<Rightarrow> ('dsl, 'resp) DimensionsQuery \<Rightarrow> dataframe \<Rightarrow>
     py_error + (string option \<times> nat) list" where
  "plot_most_common_country lib self df =
     plot_and_table lib (''Top 10 Countries in '' @ topic self @ '' Publications'')
       (country_counts lib df)"

definition plot_most_common_institutions ::
  "('dsl, 'resp) library \<Rightarrow> ('dsl, 'resp) DimensionsQuery \<Rightarrow> dataframe \<Rightarrow>
     py_error + (string option \<times> nat) list" where
  "plot_most_common_institutions lib self df =
     plot_and_table lib (''Top 10 Institutions in '' @ topic self @ '' Publications'')
       (institution_counts lib df)"

text \<open>\<open>analyze_results\<close> changes no attribute; it returns the four printed tables.\<close>

definition analyze_results ::
  "('dsl, 'resp) library \<Rightarrow> ('dsl, 'resp) DimensionsQuery \<Rightarrow>
     py_error + (string option \<times> nat) list list" where
  "analyze_results lib self =
     (case results self of
        Unset \<Rightarrow> Inl (AttributeError ''results'')
      | Attr None \<Rightarrow> Inl (ValueError ''No results to analyze. Run the query first.'')
      | Attr (Some r) \<Rightarrow>
          (case (case r of
                   DataFrame frame \<Rightarrow> Inr frame
                 | Dataset d \<Rightarrow> external (as_dataframe lib d)) of
             Inl e \<Rightarrow> Inl e
           | Inr df \<Rightarrow>
               (case plot_most_common_journal lib self df of
                  Inl e \<Rightarrow> Inl e
                | Inr t1 \<Rightarrow>
                    (case plot_publications_per_author lib self df of
                       Inl e \<Rightarrow> Inl e
                     | Inr t2 \<Rightarrow>
                         (case plot_most_common_country lib self df of
                            Inl e \<Rightarrow> Inl e
                          | Inr t3 \<Rightarrow>
                              (case plot_most_common_institutions lib self df of
                                 Inl e \<Rightarrow> Inl e
                               | Inr t4 \<Rightarrow> Inr [t1, t2, t3, t4]))))))"

section \<open>Sequences of calls\<close>

datatype setter = Update_topic string | Update_where "string option" | Update_search string

fun apply_setter ::
  "('dsl, 'resp) DimensionsQuery \<Rightarrow> setter \<Rightarrow> ('dsl, 'resp) DimensionsQuery" where
  "apply_setter self (Update_topic t) = update_topic self t"
| "apply_setter self (Update_where w) = update_where self w"
| "apply_setter self (Update_search s) = update_search self s"

text \<open>
  Any call of a public method, and the instance it leaves behind (a call that raises
  leaves the attributes it had assigned before).
\<close>

datatype call = Setter setter | Run_query bool | Analyze_results

fun after_call ::
  "('dsl, 'resp) library \<Rightarrow> ('dsl, 'resp) DimensionsQuery \<Rightarrow> call \<Rightarrow>
     ('dsl, 'resp) DimensionsQuery" where
  "after_call lib self (Setter st) = apply_setter self st"
| "after_call lib self (Run_query df) = fst (run_query lib self df)"
| "after_call lib self Analyze_results = self"

text \<open>
  The rendering of the specification, as a function of the four fields alone:
  \<open>search <target> for "<topic>" [where <filter>] return <target>[<projection>]\<close>, a
  segment being left out when its field holds nothing.
\<close>

definition render :: "string \<Rightarrow> string option \<Rightarrow> string \<Rightarrow> string option \<Rightarrow> string" where
  "render tp flt target proj =
     ''search '' @ target @ '' for '' @ [CHR 0x22] @ tp @ [CHR 0x22]
       @ (if truthy flt then '' where '' @ fmt flt else [])
       @ '' return '' @ target
       @ (if truthy proj then ''['' @ fmt proj @ '']'' else [])"

section \<open>Properties of the library's sort, and positions in a column\<close>



section \<open>Example inputs\<close>

text \<open>
  A service client that accepts every key and answers every query with an empty table,
  one whose login refuses the key, and two environments.
\<close>

definition accepting_library :: "(unit, dataframe) library" where
  "accepting_library =
     \<lparr>login = (\<lambda>k e. Inr ()), Dsl = Inr (),
      dsl_query = (\<lambda>d q. Inr \<lparr>journal_title = Some [], authors = Some []\<rparr>),
      total_count = (\<lambda>r. Inr 0), as_dataframe = (\<lambda>r. Inr r), copy_dataset = (\<lambda>r. Inr r),
      argsort = sort_key snd, bar_chart = (\<lambda>t title. Inr ())\<rparr>"

definition rejecting_library :: "(unit, dataframe) library" where
  "rejecting_library = accepting_library\<lparr>login := (\<lambda>k e. Inl ''401 Unauthorized'')\<rparr>"

definition env_with_key :: "string \<Rightarrow> string option" where
  "env_with_key n = (if n = ''DIMENSIONS_API_KEY'' then Some ''secret'' else None)"

definition env_without_key :: "string \<Rightarrow> string option" where
  "env_without_key n = None"

text \<open>The instance as the constructor has it just before it renders the query.\<close>

definition example_session :: "string option \<Rightarrow> string option \<Rightarrow> (unit, dataframe) DimensionsQuery" where
  "example_session w r =
     \<lparr>endpoint = ''https://app.dimensions.ai'', api_key = Some ''secret'', dsl = (),
      topic = ''machine learning and healthcare'', where_clause = w,
      search = ''publications'', return_cols = r, query = Unset, results = Unset\<rparr>"

text \<open>
  Authors with a first affiliation in the US and an author without affiliations; a
  table of one record with one author of each kind; the table of three records, the
  first with two authors, one of them without affiliations, the others with one US
  author each; a table whose journal column has fifteen distinct titles, some repeated.
\<close>

definition us_author :: "string \<Rightarrow> string \<Rightarrow> author" where
  "us_author rid inst =
     \<lparr>researcher_id = Some rid, affiliations = [\<lparr>country = Some ''US'', name = Some inst\<rparr>]\<rparr>"

definition unaffiliated_author :: "string \<Rightarrow> author" where
  "unaffiliated_author rid = \<lparr>researcher_id = Some rid, affiliations = []\<rparr>"

definition one_record_table :: dataframe where
  "one_record_table =
     \<lparr>journal_title = Some [Some ''Nature''],
      authors = Some [Some [us_author ''ur.1'' ''MIT'', unaffiliated_author ''ur.2'']]\<rparr>"

definition three_record_table :: dataframe where
  "three_record_table =
     \<lparr>journal_title = Some [Some ''Nature'', Some ''Science'', Some ''Nature''],
      authors = Some [Some [us_author ''ur.1'' ''MIT'', unaffiliated_author ''ur.2''],
                      Some [us_author ''ur.3'' ''Stanford''],
                      Some [us_author ''ur.4'' ''MIT'']]\<rparr>"


section \<open>The rendered query\<close>

lemma update_query_render:
  "update_query self =
     self\<lparr>query := Attr (Some
       (render (topic self) (where_clause self) (search self) (return_cols self)))\<rparr>"
  by (simp add: update_query_def render_def Let_def)

lemma update_query_fields:
  "topic (update_query self) = topic self"
  "where_clause (update_query self) = where_clause self"
  "search (update_query self) = search self"
  "return_cols (update_query self) = return_cols self"
  "results (update_query self) = results self"
  by (simp_all add: update_query_render)

lemma init_accepting:
  "init accepting_library env_with_key tp w s r ep =
     Inr (update_query \<lparr>endpoint = ep, api_key = Some ''secret'', dsl = (), topic = tp,
        where_clause = w, search = s, return_cols = r, query = Unset, results = Unset\<rparr>)"
  by (simp add: init_def validate_key_def external_def accepting_library_def env_with_key_def)

lemma init_example:
  "init accepting_library env_with_key ''machine learning and healthcare'' w ''publications'' r
     ''https://app.dimensions.ai'' = Inr (update_query (example_session w r))"
  by (simp add: init_accepting example_session_def)

text \<open>
  Claim C4, as amended. The query that \<open>update_query\<close> stores is
  \<open>search <target> for "<topic>"\<close>, then \<open>where <filter>\<close>, then \<open>return <target>\<close>, then
  \<open>[<projection>]\<close>; the filter segment is left out exactly when the filter is \<open>None\<close> or
  the empty string, and the projection segment exactly when the projection is \<open>None\<close> or
  the empty string. With neither it is \<open>search <target> for "<topic>" return <target>\<close>;
  with a filter that is not empty and the projection \<open>a+b\<close> it is
  \<open>search <target> for "<topic>" where <filter> return <target>[a+b]\<close>.
\<close>

theorem update_query_shape:
  "query (update_query self) = Attr (Some
     (''search '' @ search self @ '' for '' @ [CHR 0x22] @ topic self @ [CHR 0x22]
       @ (case where_clause self of None \<Rightarrow> [] | Some [] \<Rightarrow> []
          | Some (c # cs) \<Rightarrow> '' where '' @ c # cs)
       @ '' return '' @ search self
       @ (case return_cols self of None \<Rightarrow> [] | Some [] \<Rightarrow> []
          | Some (c # cs) \<Rightarrow> ''['' @ c # cs @ '']'')))
   \<and> query (update_query (self\<lparr>where_clause := None, return_cols := None\<rparr>)) = Attr (Some
     (''search '' @ search self @ '' for '' @ [CHR 0x22] @ topic self @ [CHR 0x22]
       @ '' return '' @ search self))
   \<and> query (update_query (self\<lparr>where_clause := Some (x # xs), return_cols := Some ''a+b''\<rparr>)) =
     Attr (Some
     (''search '' @ search self @ '' for '' @ [CHR 0x22] @ topic self @ [CHR 0x22]
       @ '' where '' @ x # xs @ '' return '' @ search self @ ''[a+b]''))"
  by (simp add: update_query_def Let_def split: option.splits list.splits)

text \<open>
  Claim C4 as it is written fails: a filter that is present but is the empty string has
  its segment left out all the same.
\<close>

theorem empty_filter_counterexample:
  "where_clause (example_session (Some []) None) \<noteq> None \<and>
   query (update_query (example_session (Some []) None)) =
     Attr (Some (''search publications for '' @ [CHR 0x22] @ ''machine learning and healthcare''
       @ [CHR 0x22] @ '' return publications''))"
  by (simp add: update_query_def example_session_def)

text \<open>
  Claim C6. Two setters of different fields, applied in either order to the same
  instance, leave the same instance, and so the same rendered query.
\<close>

theorem setters_commute:
  "update_where (update_topic self t) w = update_topic (update_where self w) t \<and>
   update_search (update_topic self t) s = update_topic (update_search self s) t \<and>
   update_search (update_where self w) s = update_where (update_search self s) w"
  by (simp add: update_topic_def update_where_def update_search_def update_query_render)

lemma empty_filter_rendered:
  "w = None \<or> w = Some [] \<Longrightarrow>
   query (update_where self w) = Attr (Some
     (''search '' @ search self @ '' for '' @ [CHR 0x22] @ topic self @ [CHR 0x22]
       @ '' return '' @ search self
       @ (case return_cols self of None \<Rightarrow> [] | Some [] \<Rightarrow> []
          | Some (c # cs) \<Rightarrow> ''['' @ c # cs @ '']'')))"
  by (auto simp: update_where_def update_query_def Let_def split: option.splits list.splits)

lemma empty_projection_rendered:
  "r = None \<or> r = Some [] \<Longrightarrow>
   query (update_query (self\<lparr>return_cols := r\<rparr>)) = Attr (Some
     (''search '' @ search self @ '' for '' @ [CHR 0x22] @ topic self @ [CHR 0x22]
       @ (case where_clause self of None \<Rightarrow> [] | Some [] \<Rightarrow> []
          | Some (c # cs) \<Rightarrow> '' where '' @ c # cs)
       @ '' return '' @ search self))"
  by (auto simp: update_query_def Let_def split: option.splits list.splits)

lemma init_empty_filter_rendered:
  "w = None \<or> w = Some [] \<Longrightarrow>
   map_sum id query (init lib env tp w s r ep) =
     map_sum id (\<lambda>d. Attr (Some
       (''search '' @ s @ '' for '' @ [CHR 0x22] @ tp @ [CHR 0x22] @ '' return '' @ s
         @ (case r of None \<Rightarrow> [] | Some [] \<Rightarrow> [] | Some (c # cs) \<Rightarrow> ''['' @ c # cs @ '']''))))
       (validate_key lib (env ''DIMENSIONS_API_KEY'') ep)"
  by (auto simp: init_def update_query_def Let_def split: sum.splits option.splits list.splits)

lemma init_empty_projection_rendered:
  "r = None \<or> r = Some [] \<Longrightarrow>
   map_sum id query (init lib env tp w s r ep) =
     map_sum id (\<lambda>d. Attr (Some
       (''search '' @ s @ '' for '' @ [CHR 0x22] @ tp @ [CHR 0x22]
         @ (case w of None \<Rightarrow> [] | Some [] \<Rightarrow> [] | Some (c # cs) \<Rightarrow> '' where '' @ c # cs)
         @ '' return '' @ s)))
       (validate_key lib (env ''DIMENSIONS_API_KEY'') ep)"
  by (auto simp: init_def update_query_def Let_def split: sum.splits option.splits list.splits)

text \<open>
  Claim C10. Setting the filter to the empty string stores the query without its
  \<open>where\<close> segment, \<open>search <target> for "<topic>" return <target>\<close> followed by the
  projection segment if there is a projection: the same string as for the filter
  \<open>None\<close>. An empty-string projection stores the query without its bracketed segment,
  the same string as for the projection \<open>None\<close>. Both hold for the setter, for
  \<open>update_query\<close> and for the constructor, whose outcome is that string whenever the
  credential check and the login succeed, and their error otherwise.
\<close>

theorem empty_string_as_absent:
  "query (update_where self (Some [])) = query (update_where self None) \<and>
   query (update_query (self\<lparr>return_cols := Some []\<rparr>)) =
     query (update_query (self\<lparr>return_cols := None\<rparr>)) \<and>
   map_sum id query (init lib env tp (Some []) s r ep) =
     map_sum id query (init lib env tp None s r ep) \<and>
   map_sum id query (init lib env tp w s (Some []) ep) =
     map_sum id query (init lib env tp w s None ep) \<and>
   query (update_where self (Some [])) = Attr (Some
     (''search '' @ search self @ '' for '' @ [CHR 0x22] @ topic self @ [CHR 0x22]
       @ '' return '' @ search self
       @ (case return_cols self of None \<Rightarrow> [] | Some [] \<Rightarrow> []
          | Some (c # cs) \<Rightarrow> ''['' @ c # cs @ '']''))) \<and>
   query (update_query (self\<lparr>return_cols := Some []\<rparr>)) = Attr (Some
     (''search '' @ search self @ '' for '' @ [CHR 0x22] @ topic self @ [CHR 0x22]
       @ (case where_clause self of None \<Rightarrow> [] | Some [] \<Rightarrow> []
          | Some (c # cs) \<Rightarrow> '' where '' @ c # cs)
       @ '' return '' @ search self)) \<and>
   map_sum id query (init lib env tp (Some []) s r ep) =
     map_sum id (\<lambda>d. Attr (Some
       (''search '' @ s @ '' for '' @ [CHR 0x22] @ tp @ [CHR 0x22] @ '' return '' @ s
         @ (case r of None \<Rightarrow> [] | Some [] \<Rightarrow> [] | Some (c # cs) \<Rightarrow> ''['' @ c # cs @ '']''))))
       (validate_key lib (env ''DIMENSIONS_API_KEY'') ep) \<and>
   map_sum id query (init lib env tp w s (Some []) ep) =
     map_sum id (\<lambda>d. Attr (Some
       (''search '' @ s @ '' for '' @ [CHR 0x22] @ tp @ [CHR 0x22]
         @ (case w of None \<Rightarrow> [] | Some [] \<Rightarrow> [] | Some (c # cs) \<Rightarrow> '' where '' @ c # cs)
         @ '' return '' @ s)))
       (validate_key lib (env ''DIMENSIONS_API_KEY'') ep)"
  using empty_filter_rendered [of "Some []" self] empty_filter_rendered [of None self]
    empty_projection_rendered [of "Some []" self] empty_projection_rendered [of None self]
    init_empty_filter_rendered [of "Some []" lib env tp s r ep]
    init_empty_filter_rendered [of None lib env tp s r ep]
    init_empty_projection_rendered [of "Some []" lib env tp w s ep]
    init_empty_projection_rendered [of None lib env tp w s ep]
  by simp

text \<open>
  The same on an instance that has a filter and a projection: the empty filter removes
  \<open>where year=2020\<close> and keeps the projection, the empty projection removes
  \<open>[id+title]\<close> and keeps the filter.
\<close>

theorem empty_string_as_absent_example:
  "query (update_where (update_query (example_session (Some ''year=2020'') (Some ''id+title'')))
       (Some [])) =
     Attr (Some (''search publications for '' @ [CHR 0x22] @ ''machine learning and healthcare''
       @ [CHR 0x22] @ '' return publications[id+title]'')) \<and>
   query (update_query ((example_session (Some ''year=2020'') (Some ''id+title''))
       \<lparr>return_cols := Some []\<rparr>)) =
     Attr (Some (''search publications for '' @ [CHR 0x22] @ ''machine learning and healthcare''
       @ [CHR 0x22] @ '' where year=2020 return publications''))"
proof -
  let ?s = "example_session (Some ''year=2020'') (Some ''id+title'')"
  have f: "search ?s = ''publications''" "topic ?s = ''machine learning and healthcare''"
    "return_cols ?s = Some ''id+title''" "where_clause ?s = Some ''year=2020''"
    by (simp_all add: example_session_def)
  have 1: "query (update_where (update_query ?s) (Some [])) = Attr (Some
     (''search '' @ search (update_query ?s) @ '' for '' @ [CHR 0x22] @ topic (update_query ?s)
       @ [CHR 0x22] @ '' return '' @ search (update_query ?s)
       @ (case return_cols (update_query ?s) of None \<Rightarrow> [] | Some [] \<Rightarrow> []
          | Some (c # cs) \<Rightarrow> ''['' @ c # cs @ '']'')))"
    using empty_string_as_absent [where self = "update_query ?s"
      and lib = accepting_library and env = env_with_key and tp = "[]" and s = "[]"
      and r = None and w = None and ep = "[]"]
    by blast
  have 2: "query (update_query (?s\<lparr>return_cols := Some []\<rparr>)) = Attr (Some
     (''search '' @ search ?s @ '' for '' @ [CHR 0x22] @ topic ?s @ [CHR 0x22]
       @ (case where_clause ?s of None \<Rightarrow> [] | Some [] \<Rightarrow> []
          | Some (c # cs) \<Rightarrow> '' where '' @ c # cs)
       @ '' return '' @ search ?s))"
    using empty_string_as_absent [where self = ?s
      and lib = accepting_library and env = env_with_key and tp = "[]" and s = "[]"
      and r = None and w = None and ep = "[]"]
    by blast
  show ?thesis
    unfolding 1 2 by (simp add: update_query_fields f)
qed

section \<open>The stored query is never stale and never None\<close>

lemma apply_setter_query:
  "query (apply_setter self st) =
     Attr (Some (render (topic (apply_setter self st)) (where_clause (apply_setter self st))
       (search (apply_setter self st)) (return_cols (apply_setter self st))))"
  by (cases st)
     (simp_all add: update_topic_def update_where_def update_search_def update_query_render)

lemma init_query:
  assumes "init lib env tp w s r ep = Inr self"
  shows "query self =
     Attr (Some (render (topic self) (where_clause self) (search self) (return_cols self)))"
  using assms
  by (auto simp: init_def Let_def update_query_render split: sum.splits)

text \<open>
  Claim C7. After a construction that succeeded, and after any sequence of setter calls
  on the instance, the stored query is the rendering of the four fields as they are then.
\<close>

theorem query_never_stale:
  assumes "init lib env tp w s r ep = Inr self"
  shows "query (foldl apply_setter self sts) =
     Attr (Some (render (topic (foldl apply_setter self sts))
       (where_clause (foldl apply_setter self sts))
       (search (foldl apply_setter self sts))
       (return_cols (foldl apply_setter self sts))))"
proof (cases sts rule: rev_cases)
  case Nil
  then show ?thesis using init_query [OF assms] by simp
next
  case (snoc pre st)
  then show ?thesis by (simp add: apply_setter_query)
qed

theorem query_never_stale_witness:
  "query (foldl apply_setter (update_query (example_session None None))
       [Update_topic ''cancer'', Update_where (Some ''year=2020''), Update_search ''grants'']) =
     Attr (Some (''search grants for '' @ [CHR 0x22] @ ''cancer'' @ [CHR 0x22]
       @ '' where year=2020 return grants''))"
  using query_never_stale [OF init_example, of None None
      "[Update_topic ''cancer'', Update_where (Some ''year=2020''), Update_search ''grants'']"]
  by (simp add: render_def update_topic_def update_where_def update_search_def
      update_query_fields example_session_def)

lemma run_query_keeps_query: "query (fst (run_query lib self df)) = query self"
  by (simp add: run_query_def split: attr.splits option.splits sum.splits)

lemma after_call_rendered:
  assumes "\<exists>q. query self = Attr (Some q)"
  shows "\<exists>q. query (after_call lib self c) = Attr (Some q)"
proof (cases c)
  case (Setter st)
  then show ?thesis by (simp add: apply_setter_query)
next
  case (Run_query df)
  then show ?thesis using assms by (simp add: run_query_keeps_query)
next
  case Analyze_results
  then show ?thesis using assms by simp
qed

lemma calls_rendered:
  assumes "\<exists>q. query self = Attr (Some q)"
  shows "\<exists>q. query (foldl (after_call lib) self cs) = Attr (Some q)"
  using assms
proof (induction cs arbitrary: self)
  case Nil
  then show ?case by simp
next
  case (Cons c cs)
  show ?case using Cons.IH [OF after_call_rendered [OF Cons.prems]] by simp
qed

lemma run_query_guard:
  assumes "query self = Attr (Some q)"
  shows "snd (run_query lib self df) \<noteq>
     Inl (ValueError ''Query not specified. Use update_query method to set the query.'')"
  using assms
  by (simp add: run_query_def external_def split: sum.splits response.splits)

text \<open>
  Claim C9. On an instance that construction produced, after any sequence of calls of
  the public methods (setters, \<open>run_query\<close>, \<open>analyze_results\<close>, whether they raise or
  not), the stored query is a string, and \<open>run_query\<close> does not raise the error of its
  query-is-None branch.
\<close>

theorem query_guard_unreachable:
  assumes "init lib env tp w s r ep = Inr self"
  shows "(\<exists>q. query (foldl (after_call lib) self cs) = Attr (Some q)) \<and>
     snd (run_query lib (foldl (after_call lib) self cs) df) \<noteq>
       Inl (ValueError ''Query not specified. Use update_query method to set the query.'')"
proof -
  have "\<exists>q. query self = Attr (Some q)" using init_query [OF assms] by simp
  then obtain q where q: "query (foldl (after_call lib) self cs) = Attr (Some q)"
    using calls_rendered by blast
  show ?thesis using q run_query_guard [OF q] by blast
qed

theorem query_guard_unreachable_witness:
  "(\<exists>q. query (foldl (after_call accepting_library) (update_query (example_session None None))
        [Analyze_results, Run_query True, Setter (Update_where (Some ''year=2020'')),
         Run_query False]) = Attr (Some q)) \<and>
   snd (run_query accepting_library
        (foldl (after_call accepting_library) (update_query (example_session None None))
          [Analyze_results, Run_query True, Setter (Update_where (Some ''year=2020'')),
           Run_query False]) True) \<noteq>
     Inl (ValueError ''Query not specified. Use update_query method to set the query.'')"
  using query_guard_unreachable [OF init_example, of None None
      "[Analyze_results, Run_query True, Setter (Update_where (Some ''year=2020'')),
        Run_query False]" True]
  by simp

section \<open>Calling analyze_results before run_query\<close>

lemma init_results:
  assumes "init lib env tp w s r ep = Inr self"
  shows "results self = Unset"
  using assms
  by (auto simp: init_def Let_def update_query_fields split: sum.splits)

lemma apply_setter_results: "results (apply_setter self st) = results self"
  by (cases st)
     (simp_all add: update_topic_def update_where_def update_search_def update_query_fields)

lemma setters_results: "results (foldl apply_setter self sts) = results self"
  by (induction sts arbitrary: self) (simp_all add: apply_setter_results)

lemma analyze_before_run:
  assumes "init lib env tp w s r ep = Inr self"
  shows "analyze_results lib (foldl apply_setter self sts) = Inl (AttributeError ''results'')"
  by (simp add: analyze_results_def setters_results init_results [OF assms])

text \<open>
  Claim C3. The constructor assigns no \<open>results\<close> attribute, so on an instance on which
  \<open>run_query\<close> has not been called the test \<open>self.results is None\<close> raises
  \<open>AttributeError\<close>, and the \<open>ValueError\<close> that the method means to raise there is not
  what the caller gets.
\<close>

theorem analyze_results_on_new_instance:
  "init accepting_library env_with_key ''machine learning and healthcare'' None ''publications''
     None ''https://app.dimensions.ai'' = Inr (update_query (example_session None None)) \<and>
   analyze_results accepting_library (update_query (example_session None None)) =
     Inl (AttributeError ''results'') \<and>
   analyze_results accepting_library (update_query (example_session None None)) \<noteq>
     Inl (ValueError ''No results to analyze. Run the query first.'')"
  using analyze_before_run [OF init_example, of None None "[]"] init_example [of None None]
  by simp

section \<open>Construction and the credential\<close>

text \<open>
  Claim C5, as amended. When the environment has no \<open>DIMENSIONS_API_KEY\<close>, construction
  raises the missing-key \<open>ValueError\<close>, whatever the service client would do (it is not
  called), and no instance exists on which a query could be submitted. When the key is
  present, construction logs in with it: it produces the instance, with its query
  rendered, when the login and the creation of the client succeed, and passes on their
  error when one of them raises.
\<close>

theorem construction_outcome:
  "(env ''DIMENSIONS_API_KEY'' = None \<longrightarrow>
      init lib env tp w s r ep = Inl (ValueError
        ''API key not found. Make sure to set DIMENSIONS_API_KEY in your .env file.'')) \<and>
   (env ''DIMENSIONS_API_KEY'' = Some k \<and> login lib k ep = Inl m \<longrightarrow>
      init lib env tp w s r ep = Inl (LibraryError m)) \<and>
   (env ''DIMENSIONS_API_KEY'' = Some k \<and> login lib k ep = Inr () \<and> Dsl lib = Inl m \<longrightarrow>
      init lib env tp w s r ep = Inl (LibraryError m)) \<and>
   (env ''DIMENSIONS_API_KEY'' = Some k \<and> login lib k ep = Inr () \<and> Dsl lib = Inr d \<longrightarrow>
      init lib env tp w s r ep =
        Inr \<lparr>endpoint = ep, api_key = Some k, dsl = d, topic = tp, where_clause = w,
             search = s, return_cols = r, query = Attr (Some (render tp w s r)),
             results = Unset\<rparr>)"
  by (simp add: init_def validate_key_def external_def update_query_def render_def Let_def)

theorem construction_outcome_witness:
  "init accepting_library env_without_key ''t'' None ''publications'' None ''e'' =
     Inl (ValueError ''API key not found. Make sure to set DIMENSIONS_API_KEY in your .env file.'') \<and>
   init rejecting_library env_with_key ''t'' None ''publications'' None ''e'' =
     Inl (LibraryError ''401 Unauthorized'') \<and>
   init accepting_library env_with_key ''t'' None ''publications'' None ''e'' =
     Inr \<lparr>endpoint = ''e'', api_key = Some ''secret'', dsl = (), topic = ''t'',
          where_clause = None, search = ''publications'', return_cols = None,
          query = Attr (Some (render ''t'' None ''publications'' None)), results = Unset\<rparr>"
  using construction_outcome [where env = env_without_key and lib = accepting_library
      and tp = "''t''" and w = None and s = "''publications''" and r = None and ep = "''e''"]
    construction_outcome [where env = env_with_key and lib = rejecting_library
      and k = "''secret''" and m = "''401 Unauthorized''"
      and tp = "''t''" and w = None and s = "''publications''" and r = None and ep = "''e''"]
    construction_outcome [where env = env_with_key and lib = accepting_library
      and k = "''secret''" and d = "()"
      and tp = "''t''" and w = None and s = "''publications''" and r = None and ep = "''e''"]
  by (simp add: env_without_key_def env_with_key_def accepting_library_def rejecting_library_def)

text \<open>
  Claim C5 as it is written fails in its second half: with the key present, construction
  still fails when the service refuses the login.
\<close>

theorem present_key_counterexample:
  "env_with_key ''DIMENSIONS_API_KEY'' = Some ''secret'' \<and>
   init rejecting_library env_with_key ''machine learning and healthcare'' None ''publications''
     None ''https://app.dimensions.ai'' = Inl (LibraryError ''401 Unauthorized'')"
  by (simp add: init_def validate_key_def external_def env_with_key_def rejecting_library_def
      accepting_library_def)

section \<open>Missing affiliations\<close>

lemma value_counts_drops_missing:
  assumes "f a = None"
  shows "value_counts srt True (map f (xs @ a # ys)) = value_counts srt True (map f (xs @ ys))"
  using assms by (simp add: value_counts_def)

text \<open>
  Claim C1, as amended. An author object whose affiliations list is empty makes the
  country counts and the institution counts neither fail nor gain an entry: the lambda
  gives \<open>None\<close> for it, and \<open>value_counts\<close> leaves missing values out, so both counts are
  exactly the counts of the other authors' first affiliations.
\<close>

theorem unaffiliated_author_not_counted:
  assumes "authors_df df = Inr (xs @ a # ys)" and "affiliations a = []"
  shows "country_counts lib df =
       Inr (value_counts (argsort lib) True (map first_country (map affiliations (xs @ ys)))) \<and>
     institution_counts lib df =
       Inr (value_counts (argsort lib) True (map first_name (map affiliations (xs @ ys))))"
proof -
  have c: "(first_country \<circ> affiliations) a = None" and n: "(first_name \<circ> affiliations) a = None"
    using assms(2) by (simp_all add: first_country_def first_name_def)
  show ?thesis
    using value_counts_drops_missing [where f = "first_country \<circ> affiliations", OF c,
        of "argsort lib" xs ys]
      value_counts_drops_missing [where f = "first_name \<circ> affiliations", OF n,
        of "argsort lib" xs ys]
    by (simp add: country_counts_def institution_counts_def assms(1) author_column_def)
qed

lemma one_record_rows:
  "authors_df one_record_table = Inr ([us_author ''ur.1'' ''MIT''] @ unaffiliated_author ''ur.2'' # [])"
  by (simp add: authors_df_def one_record_table_def)

theorem unaffiliated_author_not_counted_witness:
  "country_counts accepting_library one_record_table =
     Inr (value_counts (sort_key snd) True [Some ''US'']) \<and>
   institution_counts accepting_library one_record_table =
     Inr (value_counts (sort_key snd) True [Some ''MIT''])"
  using unaffiliated_author_not_counted [OF one_record_rows, of accepting_library]
  by (simp add: unaffiliated_author_def us_author_def first_country_def first_name_def
      accepting_library_def)

text \<open>
  Claim C1 as it is written fails: with one US author of MIT and one author without
  affiliations, each of the two counts has the single entry of the first author, and
  no entry for the second.
\<close>

theorem no_sentinel_entry_counterexample:
  "affiliations (unaffiliated_author ''ur.2'') = [] \<and>
   country_counts accepting_library one_record_table = Inr [(Some ''US'', 1)] \<and>
   institution_counts accepting_library one_record_table = Inr [(Some ''MIT'', 1)]"
  by (simp add: country_counts_def institution_counts_def authors_df_def author_column_def
      one_record_table_def us_author_def unaffiliated_author_def first_country_def
      first_name_def value_counts_def counted_def sort_values_desc_def accepting_library_def)

text \<open>
  Claim C2, as amended. For a table of three records, the first with two authors, one
  with a US first affiliation and one with no affiliation, the other two with one US
  author each, the country frequency table is the single row US with count 3: counted
  by \<open>country_counts\<close>, and printed by \<open>plot_most_common_country\<close> when the chart can be
  drawn. (The library's sort is asked only to return a table of one row as it is.)
\<close>

theorem scenario_country_table:
  assumes "authors df = Some [Some rec1, Some [a2], Some [a3]]"
    and "rec1 = [a1, a0] \<or> rec1 = [a0, a1]"
    and "affiliations a0 = []"
    and "\<forall>a \<in> {a1, a2, a3}. first_country (affiliations a) = Some ''US''"
    and "argsort lib [(Some ''US'', 3)] = [(Some ''US'', 3)]"
    and "bar_chart lib [(Some ''US'', 3)] (''Top 10 Countries in '' @ topic self @ '' Publications'')
       = Inr ()"
  shows "country_counts lib df = Inr [(Some ''US'', 3)] \<and>
     plot_most_common_country lib self df = Inr [(Some ''US'', 3)]"
proof -
  have none: "first_country (affiliations a0) = None"
    using assms(3) by (simp add: first_country_def)
  have rows: "authors_df df = Inr (rec1 @ [a2, a3])"
    using assms(1) by (simp add: authors_df_def)
  have "filter (\<lambda>v. v \<noteq> None) (map first_country (map affiliations (rec1 @ [a2, a3]))) =
      [Some ''US'', Some ''US'', Some ''US'']"
    using assms(2,4) none by auto
  then have "value_counts (argsort lib) True (map first_country (map affiliations (rec1 @ [a2, a3])))
      = [(Some ''US'', 3)]"
    using assms(5) by (simp add: value_counts_def counted_def sort_values_desc_def numeral_3_eq_3)
  then have cc: "country_counts lib df = Inr [(Some ''US'', 3)]"
    using rows assms(2) by (auto simp: country_counts_def author_column_def)
  show ?thesis
    using cc assms(6)
    by (simp add: plot_most_common_country_def plot_and_table_def head_def external_def)
qed

theorem scenario_country_table_witness:
  "country_counts accepting_library three_record_table = Inr [(Some ''US'', 3)] \<and>
   plot_most_common_country accepting_library (update_query (example_session None None))
     three_record_table = Inr [(Some ''US'', 3)]"
proof -
  let ?a0 = "unaffiliated_author ''ur.2''" and ?a1 = "us_author ''ur.1'' ''MIT''"
  have 1: "authors three_record_table = Some [Some [?a1, ?a0],
      Some [us_author ''ur.3'' ''Stanford''], Some [us_author ''ur.4'' ''MIT'']]"
    by (simp add: three_record_table_def)
  have 2: "[?a1, ?a0] = [?a1, ?a0] \<or> [?a1, ?a0] = [?a0, ?a1]" by simp
  have 3: "affiliations ?a0 = []" by (simp add: unaffiliated_author_def)
  have 4: "\<forall>a \<in> {?a1, us_author ''ur.3'' ''Stanford'', us_author ''ur.4'' ''MIT''}.
      first_country (affiliations a) = Some ''US''"
    by (simp add: us_author_def first_country_def)
  have 5: "argsort accepting_library [(Some ''US'', 3)] = [(Some ''US'', 3)]"
    by (simp add: accepting_library_def)
  have 6: "bar_chart accepting_library [(Some ''US'', 3)]
      (''Top 10 Countries in '' @ topic (update_query (example_session None None))
         @ '' Publications'') = Inr ()"
    by (simp add: accepting_library_def)
  show ?thesis by (rule scenario_country_table [OF 1 2 3 4 5 6])
qed

text \<open>
  Claim C2 as it is written fails: the table printed for the three records has the row
  US with count 3 and no row for the missing value.
\<close>

theorem scenario_sentinel_counterexample:
  "(case plot_most_common_country accepting_library (update_query (example_session None None))
          three_record_table of
      Inl e \<Rightarrow> False
    | Inr t \<Rightarrow> map_of t (Some ''US'') = Some 3 \<and> map_of t None = None \<and> length t = 1)"
  by (simp add: plot_most_common_country_def plot_and_table_def head_def external_def
      country_counts_def authors_df_def author_column_def three_record_table_def
      us_author_def unaffiliated_author_def first_country_def
      value_counts_def counted_def sort_values_desc_def accepting_library_def)

section \<open>The ten most frequent values\<close>















end
